theory Spec2Isabelle
  imports Main
begin

section \<open>Positions, ranges and flattened symbols\<close>

text \<open>
  The data of \<^verbatim>\<open>src/handler/symbols.ts\<close>. A position is a line and a character, a
  range a start and an end position (the field \<^verbatim>\<open>end\<close> of the source is written
  \<open>end_pos\<close>, the fields \<^verbatim>\<open>text\<close> and \<^verbatim>\<open>range\<close> of a symbol \<open>text_sym\<close> and
  \<open>range_sym\<close>).
\<close>

record Position =
  line :: nat
  character :: nat

record Range =
  start :: Position
  end_pos :: Position

record SymbolInfo =
  col :: nat
  lnum :: nat
  text_sym :: string
  level :: nat
  kind :: string
  range_sym :: "Range option"
  selectionRange :: "Range option"
  containerName :: "string option"

text \<open>
  Modelled from the spec: \<^verbatim>\<open>util/position\<close> and \<^verbatim>\<open>util/object\<close> are not among the
  sources. Positions are compared in document order (line first, then character). The
  source tests \<^verbatim>\<open>positionInRange(position, range) == 0\<close>, so the helper is a three-way
  comparison of a position with a range: negative before the start, positive after the
  end, zero otherwise; the bounds count as inside (section 4.2, "strict-or-equal on
  bounds"). \<^verbatim>\<open>rangeInRange(r, range)\<close> holds when both ends of \<open>r\<close> are inside
  \<open>range\<close>, and \<^verbatim>\<open>equals\<close> is structural equality.
\<close>

definition position_lt :: "Position \<Rightarrow> Position \<Rightarrow> bool" where
  "position_lt p q \<longleftrightarrow> line p < line q \<or> (line p = line q \<and> character p < character q)"

definition positionInRange :: "Position \<Rightarrow> Range \<Rightarrow> int" where
  "positionInRange position r =
     (if position_lt position (start r) then - 1
      else if position_lt (end_pos r) position then 1
      else 0)"

definition rangeInRange :: "Range \<Rightarrow> Range \<Rightarrow> bool" where
  "rangeInRange r rng \<longleftrightarrow>
     positionInRange (start r) rng = 0 \<and> positionInRange (end_pos r) rng = 0"

definition equals :: "Range \<Rightarrow> Range \<Rightarrow> bool" where
  "equals a b \<longleftrightarrow> a = b"

text \<open>JavaScript's \<^verbatim>\<open>String.prototype.endsWith\<close> and \<^verbatim>\<open>toLowerCase\<close> (on ASCII letters).\<close>

definition endsWith :: "string \<Rightarrow> string \<Rightarrow> bool" where
  "endsWith s suffix \<longleftrightarrow>
     length suffix \<le> length s \<and> drop (length s - length suffix) s = suffix"

definition toLowerCase :: "string \<Rightarrow> string" where
  "toLowerCase s =
     map (\<lambda>c. if 65 \<le> (of_char c :: nat) \<and> (of_char c :: nat) \<le> 90
               then char_of ((of_char c :: nat) + 32) else c) s"

section \<open>The scans of the query operations\<close>

text \<open>
  \<^verbatim>\<open>getCurrentFunctionInfo\<close>, lines 78 to 90: the loop over the reversed array, here
  over the list it is handed (the caller reverses). The result is the array
  \<^verbatim>\<open>[functionName, functionStart, functionEnd]\<close> of the first symbol that has a range,
  whose range holds the position and whose text does not end with \<^verbatim>\<open>) callback\<close>;
  the empty array when there is none.
\<close>

datatype js_value = JString string | JPosition Position

fun info_loop :: "Position \<Rightarrow> SymbolInfo list \<Rightarrow> js_value list" where
  "info_loop position [] = []"
| "info_loop position (s # rest) =
     (case range_sym s of
        None \<Rightarrow> info_loop position rest
      | Some r \<Rightarrow>
          if positionInRange position r = 0 \<and> \<not> endsWith (text_sym s) '') callback''
          then [JString (text_sym s), JPosition (start r), JPosition (end_pos r)]
          else info_loop position rest)"

text \<open>
  \<^verbatim>\<open>getCurrentFunctionSymbol\<close>, lines 106 to 122: the kind filter, and the loop over the
  reversed filtered array. \<open>labels\<close> is the configuration object
  \<^verbatim>\<open>suggest.completionItemKindLabels\<close>; \<open>labelled\<close> is lines 117 to 119: a label
  that is missing or the empty string is falsy and leaves the name as it is.
\<close>

definition function_kinds :: "string list" where
  "function_kinds = [''Class'', ''Method'', ''Function'', ''Struct'']"

definition labelled :: "(string \<rightharpoonup> string) \<Rightarrow> SymbolInfo \<Rightarrow> string" where
  "labelled labels s =
     (case labels (toLowerCase (kind s)) of
        None \<Rightarrow> text_sym s
      | Some label \<Rightarrow> if label \<noteq> [] then label @ '' '' @ text_sym s else text_sym s)"

fun name_loop :: "(string \<rightharpoonup> string) \<Rightarrow> Position \<Rightarrow> SymbolInfo list \<Rightarrow> string" where
  "name_loop labels position [] = []"
| "name_loop labels position (s # rest) =
     (case range_sym s of
        None \<Rightarrow> name_loop labels position rest
      | Some r \<Rightarrow>
          if positionInRange position r = 0 \<and> \<not> endsWith (text_sym s) '') callback''
          then labelled labels s
          else name_loop labels position rest)"

text \<open>
  \<^verbatim>\<open>selectSymbolRange\<close>, lines 148 to 155: the filter by the supported kinds and the
  loop over the reversed filtered array; \<open>None\<close> is the \<^verbatim>\<open>selectRange\<close> left
  undefined.
\<close>

fun select_loop :: "Range \<Rightarrow> SymbolInfo list \<Rightarrow> Range option" where
  "select_loop rng [] = None"
| "select_loop rng (s # rest) =
     (case range_sym s of
        None \<Rightarrow> select_loop rng rest
      | Some r \<Rightarrow>
          if \<not> equals r rng \<and> rangeInRange rng r then Some r
          else select_loop rng rest)"

section \<open>Provider results and their normalisation\<close>

text \<open>
  The provider answers with an array of \<^verbatim>\<open>DocumentSymbol\<close> (a tree), an array of
  \<^verbatim>\<open>SymbolInformation\<close> (flat), or \<^verbatim>\<open>null\<close>. The kind of a raw symbol is the
  number of the protocol; \<^verbatim>\<open>getSymbolKind\<close> (\<^verbatim>\<open>util/convert\<close>, not among the
  sources) turns it into the kind name and is a parameter \<open>gsk\<close> of everything that
  normalises.
\<close>

datatype DocumentSymbol =
  DocumentSymbol (ds_name: string) (ds_detail: string) (ds_kind: nat)
    (ds_range: Range) (ds_selectionRange: Range) (ds_children: "DocumentSymbol list")

record SymbolInformation =
  si_name :: string
  si_kind :: nat
  si_uri :: string
  si_range :: Range
  si_containerName :: "string option"

datatype provider_result =
  DocumentSymbols "DocumentSymbol list"
| SymbolInformations "SymbolInformation list"

text \<open>
  Modelled from the spec: \<^verbatim>\<open>handler/helper\<close> (\<^verbatim>\<open>isDocumentSymbols\<close>,
  \<^verbatim>\<open>sortDocumentSymbols\<close>, \<^verbatim>\<open>sortSymbolInformations\<close>, \<^verbatim>\<open>addDocumentSymbol\<close>) is
  not among the sources. Section 4.3: both shapes are sorted by range start, then by
  range end descending; JavaScript's sort is stable, so this is an insertion sort that
  keeps equal elements in their order. In the hierarchical case every node is appended
  as one entry at the current level, then its sorted children at the next level, before
  the next sibling; \<open>lnum\<close> and \<open>col\<close> are the start of the range, counted from one.
\<close>

definition range_before :: "Range \<Rightarrow> Range \<Rightarrow> bool" where
  "range_before a b \<longleftrightarrow>
     position_lt (start a) (start b) \<or>
     (start a = start b \<and> position_lt (end_pos b) (end_pos a))"

fun insert_by_range :: "('a \<Rightarrow> Range) \<Rightarrow> 'a \<Rightarrow> 'a list \<Rightarrow> 'a list" where
  "insert_by_range key x [] = [x]"
| "insert_by_range key x (y # ys) =
     (if range_before (key y) (key x) then y # insert_by_range key x ys else x # y # ys)"

definition sort_by_range :: "('a \<Rightarrow> Range) \<Rightarrow> 'a list \<Rightarrow> 'a list" where
  "sort_by_range key xs = foldr (insert_by_range key) xs []"

definition isDocumentSymbols :: "provider_result \<Rightarrow> bool" where
  "isDocumentSymbols symbols = (case symbols of DocumentSymbols _ \<Rightarrow> True | _ \<Rightarrow> False)"

function addDocumentSymbol ::
  "(nat \<Rightarrow> string) \<Rightarrow> SymbolInfo list \<Rightarrow> DocumentSymbol \<Rightarrow> nat \<Rightarrow> SymbolInfo list" where
  "addDocumentSymbol gsk res (DocumentSymbol name detail k r sel children) lvl =
     fold (\<lambda>c acc. addDocumentSymbol gsk acc c (lvl + 1)) (sort_by_range ds_range children)
       (res @ [\<lparr>col = character (start r) + 1, lnum = line (start r) + 1, text_sym = name,
                level = lvl, kind = gsk k, range_sym = Some r, selectionRange = Some sel,
                containerName = None\<rparr>])"
  by pat_completeness auto
termination
proof -
  have ins: "set (insert_by_range key x ys) = insert x (set ys)"
    for key :: "DocumentSymbol \<Rightarrow> Range" and x ys
    by (induction ys) auto
  have srt: "set (sort_by_range key xs) = set xs"
    for key :: "DocumentSymbol \<Rightarrow> Range" and xs
    unfolding sort_by_range_def by (induction xs) (auto simp: ins)
  show ?thesis
    by (relation "measure (\<lambda>(gsk, res, s, lvl). size s)")
       (auto simp: srt less_Suc_eq_le size_list_estimation')
qed

text \<open>
  \<^verbatim>\<open>_fetchSymbols\<close>, lines 218 to 239: the flattened list \<^verbatim>\<open>res\<close> of a provider
  result. The test of line 220 decides which branch runs; the source has one array
  where the model has two shapes, so each branch has a case that the test excludes. An
  empty array gives the empty list in both.
\<close>

definition flat_info :: "(nat \<Rightarrow> string) \<Rightarrow> SymbolInformation \<Rightarrow> SymbolInfo" where
  "flat_info gsk s =
     \<lparr>col = character (start (si_range s)) + 1, lnum = line (start (si_range s)) + 1,
      text_sym = si_name s, level = 0, kind = gsk (si_kind s),
      range_sym = Some (si_range s), selectionRange = None,
      containerName = si_containerName s\<rparr>"

definition normalise :: "(nat \<Rightarrow> string) \<Rightarrow> provider_result \<Rightarrow> SymbolInfo list" where
  "normalise gsk symbols =
     (if isDocumentSymbols symbols
      then (case symbols of
              DocumentSymbols ds \<Rightarrow>
                fold (\<lambda>s res. addDocumentSymbol gsk res s 0) (sort_by_range ds_range ds) []
            | SymbolInformations si \<Rightarrow> [])
      else (case symbols of
              DocumentSymbols ds \<Rightarrow> []
            | SymbolInformations si \<Rightarrow> map (flat_info gsk) (sort_by_range si_range si)))"

text \<open>
  Lines 242 to 248: what \<^verbatim>\<open>_onDidUpdate\<close> fires, the sorted tree as it is, or one
  childless \<^verbatim>\<open>DocumentSymbol\<close> for every flat symbol.
\<close>

definition fired :: "provider_result \<Rightarrow> DocumentSymbol list" where
  "fired symbols =
     (case symbols of
        DocumentSymbols ds \<Rightarrow> sort_by_range ds_range ds
      | SymbolInformations si \<Rightarrow>
          map (\<lambda>x. DocumentSymbol (si_name x) [] (si_kind x) (si_range x) (si_range x) [])
            (sort_by_range si_range si))"

section \<open>The store, the documents and the cache objects\<close>

text \<open>
  Arrays of \<^verbatim>\<open>SymbolInfo\<close> are objects: \<^verbatim>\<open>this.symbols\<close> and the value that
  \<^verbatim>\<open>getSymbols\<close> returns are the same array, and \<^verbatim>\<open>Array.prototype.reverse\<close>
  changes an array in place. The store \<open>heap\<close> maps the address of an array to its
  elements; \<open>alloc\<close> is an array literal or the result of \<^verbatim>\<open>filter\<close>.

  A \<open>Document\<close> is what \<^verbatim>\<open>workspace.getDocument(bufnr)\<close> gives: its version (the
  source reads it as \<^verbatim>\<open>doc.version\<close> and as \<^verbatim>\<open>textDocument.version\<close>), whether it
  is attached, its buftype, and whether \<^verbatim>\<open>languages.hasProvider('documentSymbol', ...)\<close>
  holds for it. A \<open>SymbolsBuffer\<close> holds the fields of the class; \<open>timer\<close> says that
  the debounced \<^verbatim>\<open>fetchSymbols\<close> has a call pending; \<^verbatim>\<open>undefined\<close> and \<^verbatim>\<open>null\<close>
  are \<open>None\<close>. A \<open>Fetch\<close> is a call of \<^verbatim>\<open>_fetchSymbols\<close> suspended at its
  \<^verbatim>\<open>await\<close> (line 215), with the locals it resumes with. The world also counts the
  calls of \<^verbatim>\<open>languages.getDocumentSymbol\<close>, records the cancelled tokens, what
  \<^verbatim>\<open>_onDidUpdate\<close> fired and what was sent to the editor, and holds the two
  configuration values and the editor's current buffer and cursor.
\<close>

type_synonym addr = nat
type_synonym token = nat

record Document =
  doc_version :: nat
  attached :: bool
  buftype :: string
  has_provider :: bool

record SymbolsBuffer =
  version :: "nat option"
  autoUpdate :: bool
  symbols :: "addr option"
  tokenSource :: "token option"
  timer :: bool

record Fetch =
  f_bufnr :: nat
  f_version :: nat
  f_token :: token

datatype effect = SetVar nat string string | DoAutocmd string

record world =
  documents :: "nat \<rightharpoonup> Document"
  buffers :: "nat \<rightharpoonup> SymbolsBuffer"
  heap :: "addr \<Rightarrow> SymbolInfo list"
  next_addr :: addr
  next_token :: token
  cancelled :: "token list"
  inflight :: "Fetch list"
  provider_calls :: nat
  updates :: "(nat \<times> DocumentSymbol list) list"
  published :: "effect list"
  functionUpdate :: bool
  labels :: "string \<rightharpoonup> string"
  current_bufnr :: nat
  cursor :: Position

datatype 'a async = Returned 'a | Awaiting token

definition alloc :: "SymbolInfo list \<Rightarrow> world \<Rightarrow> addr \<times> world" where
  "alloc xs w =
     (next_addr w, w\<lparr>heap := (heap w)(next_addr w := xs), next_addr := next_addr w + 1\<rparr>)"

definition isCancellationRequested :: "token \<Rightarrow> world \<Rightarrow> bool" where
  "isCancellationRequested t w \<longleftrightarrow> t \<in> set (cancelled w)"

text \<open>
  Lines 24 to 31 and 184 to 188: the callback of \<^verbatim>\<open>registerBufferSync\<close> makes no
  buffer for a document with a buftype, and a new \<^verbatim>\<open>SymbolsBuffer\<close> otherwise, with
  its own empty array.
\<close>

definition register_buffer :: "nat \<Rightarrow> world \<Rightarrow> world" where
  "register_buffer b w =
     (case documents w b of
        None \<Rightarrow> w
      | Some d \<Rightarrow>
          if buftype d \<noteq> [] then w
          else (case alloc [] w of
                  (a, w1) \<Rightarrow>
                    w1\<lparr>buffers := (buffers w1)(b \<mapsto>
                          \<lparr>version = None, autoUpdate = False, symbols = Some a,
                           tokenSource = None, timer = False\<rparr>)\<rparr>))"

text \<open>
  The methods of \<^verbatim>\<open>SymbolsBuffer\<close>. The object \<^verbatim>\<open>this\<close> is the buffer stored under
  its \<^verbatim>\<open>bufnr\<close>; a method is only called on an object that exists, and the model
  leaves the world as it is otherwise.

  \<^verbatim>\<open>cancel\<close>, lines 251 to 257.
\<close>

definition cancel :: "nat \<Rightarrow> world \<Rightarrow> world" where
  "cancel b w =
     (case buffers w b of
        None \<Rightarrow> w
      | Some this \<Rightarrow>
          (case tokenSource this of
             None \<Rightarrow> w\<lparr>buffers := (buffers w)(b \<mapsto> this\<lparr>timer := False\<rparr>)\<rparr>
           | Some t \<Rightarrow>
               w\<lparr>buffers := (buffers w)(b \<mapsto> this\<lparr>timer := False, tokenSource := None\<rparr>),
                 cancelled := t # cancelled w\<rparr>))"

text \<open>
  \<^verbatim>\<open>_fetchSymbols\<close>, lines 209 to 215: up to the call of the provider. \<open>None\<close> is the
  return of line 211; otherwise the new token, with the call in flight.
\<close>

definition fetchSymbols_start :: "nat \<Rightarrow> world \<Rightarrow> token option \<times> world" where
  "fetchSymbols_start b w =
     (case buffers w b of
        None \<Rightarrow> (None, w)
      | Some this \<Rightarrow>
          (case documents w b of
             None \<Rightarrow> (None, w)
           | Some d \<Rightarrow>
               if Some (doc_version d) = version this then (None, w)
               else (Some (next_token w),
                     w\<lparr>buffers := (buffers w)(b \<mapsto> this\<lparr>tokenSource := Some (next_token w)\<rparr>),
                       next_token := next_token w + 1,
                       inflight := inflight w @
                         [\<lparr>f_bufnr = b, f_version = doc_version d, f_token = next_token w\<rparr>],
                       provider_calls := provider_calls w + 1\<rparr>)))"

text \<open>
  \<^verbatim>\<open>_fetchSymbols\<close>, lines 216 to 248: from the answer of the provider (\<open>None\<close> is
  \<^verbatim>\<open>null\<close>) to the end.
\<close>

definition fetchSymbols_resume ::
  "(nat \<Rightarrow> string) \<Rightarrow> Fetch \<Rightarrow> provider_result option \<Rightarrow> world \<Rightarrow> world" where
  "fetchSymbols_resume gsk f answer w =
     (case buffers w (f_bufnr f) of
        None \<Rightarrow> w
      | Some this \<Rightarrow>
          (let w1 = w\<lparr>buffers := (buffers w)(f_bufnr f \<mapsto> this\<lparr>tokenSource := None\<rparr>)\<rparr> in
           case answer of
             None \<Rightarrow> w1
           | Some syms \<Rightarrow>
               if isCancellationRequested (f_token f) w1 then w1
               else (case alloc (normalise gsk syms) w1 of
                       (a, w2) \<Rightarrow>
                         w2\<lparr>buffers := (buffers w2)(f_bufnr f \<mapsto>
                               this\<lparr>tokenSource := None, version := Some (f_version f),
                                    symbols := Some a\<rparr>),
                            updates := updates w2 @ [(f_bufnr f, fired syms)]\<rparr>)))"

text \<open>
  \<^verbatim>\<open>getSymbols\<close>, lines 190 to 199. \<^verbatim>\<open>doc.forceSync()\<close> belongs to the document
  model, which is not among the sources: an edit is an event of its own (\<open>DocChange\<close>
  below), and the version read here is the one after the synchronisation. The result is
  the address of an array (\<open>None\<close> when \<^verbatim>\<open>this.symbols\<close> is undefined), or the token
  of the fetch that the call awaits; \<open>getSymbols_finish\<close> is line 198, run when that
  fetch has resumed.
\<close>

definition getSymbols_finish :: "nat \<Rightarrow> world \<Rightarrow> addr option" where
  "getSymbols_finish b w = (case buffers w b of None \<Rightarrow> None | Some this \<Rightarrow> symbols this)"

definition getSymbols :: "nat \<Rightarrow> world \<Rightarrow> addr option async \<times> world" where
  "getSymbols b w =
     (case buffers w b of
        None \<Rightarrow> (Returned None, w)
      | Some this \<Rightarrow>
          (case documents w b of
             None \<Rightarrow> (case alloc [] w of (a, w1) \<Rightarrow> (Returned (Some a), w1))
           | Some d \<Rightarrow>
               (let w1 = w\<lparr>buffers := (buffers w)(b \<mapsto> this\<lparr>autoUpdate := True\<rparr>)\<rparr> in
                if Some (doc_version d) = version this then (Returned (symbols this), w1)
                else (case fetchSymbols_start b (cancel b w1) of
                        (None, w2) \<Rightarrow> (Returned (getSymbols_finish b w2), w2)
                      | (Some t, w2) \<Rightarrow> (Awaiting t, w2)))))"

text \<open>\<^verbatim>\<open>onChange\<close>, lines 201 to 203.\<close>

definition onChange :: "nat \<Rightarrow> world \<Rightarrow> world" where
  "onChange b w = cancel b w"

text \<open>
  The debounced \<^verbatim>\<open>fetchSymbols\<close>, lines 185 to 187: a call leaves one call pending,
  and when the delay has passed the pending call runs \<^verbatim>\<open>_fetchSymbols\<close>.
\<close>

definition fetchSymbols :: "nat \<Rightarrow> world \<Rightarrow> world" where
  "fetchSymbols b w =
     (case buffers w b of
        None \<Rightarrow> w
      | Some this \<Rightarrow> w\<lparr>buffers := (buffers w)(b \<mapsto> this\<lparr>timer := True\<rparr>)\<rparr>)"

definition fetchSymbols_elapsed :: "nat \<Rightarrow> world \<Rightarrow> world" where
  "fetchSymbols_elapsed b w =
     (case buffers w b of
        None \<Rightarrow> w
      | Some this \<Rightarrow>
          if timer this
          then snd (fetchSymbols_start b (w\<lparr>buffers := (buffers w)(b \<mapsto> this\<lparr>timer := False\<rparr>)\<rparr>))
          else w)"

text \<open>\<^verbatim>\<open>dispose\<close>, lines 259 to 264.\<close>

definition dispose :: "nat \<Rightarrow> world \<Rightarrow> world" where
  "dispose b w =
     (let w1 = cancel b w in
      case buffers w1 b of
        None \<Rightarrow> w1
      | Some this \<Rightarrow> w1\<lparr>buffers := (buffers w1)(b \<mapsto> this\<lparr>symbols := None\<rparr>)\<rparr>)"

section \<open>The operations of Symbols\<close>

text \<open>
  \<^verbatim>\<open>getDocumentSymbols\<close>, lines 63 to 66: \<^verbatim>\<open>buf?.getSymbols()\<close> is undefined when the
  buffer has no item.
\<close>

definition getDocumentSymbols :: "nat \<Rightarrow> world \<Rightarrow> addr option async \<times> world" where
  "getDocumentSymbols bufnr w =
     (case buffers w bufnr of
        None \<Rightarrow> (Returned None, w)
      | Some _ \<Rightarrow> getSymbols bufnr w)"

text \<open>
  Lines 69 and 94: a missing or zero \<^verbatim>\<open>bufnr\<close> is replaced by the editor's current
  buffer. \<open>reverse\<close> is \<^verbatim>\<open>Array.prototype.reverse\<close>, in place.
\<close>

definition resolve_bufnr :: "nat option \<Rightarrow> world \<Rightarrow> nat" where
  "resolve_bufnr arg w =
     (case arg of
        None \<Rightarrow> current_bufnr w
      | Some n \<Rightarrow> if n = 0 then current_bufnr w else n)"

definition reverse :: "addr \<Rightarrow> world \<Rightarrow> world" where
  "reverse a w = w\<lparr>heap := (heap w)(a := rev (heap w a))\<rparr>"

text \<open>
  \<^verbatim>\<open>getCurrentFunctionInfo\<close>: lines 75 to 90 on the value of \<^verbatim>\<open>symbols\<close>, and the
  whole method up to that value. When \<^verbatim>\<open>getSymbols\<close> awaits a fetch the method is
  suspended (\<open>Awaiting\<close>); it goes on with \<open>getCurrentFunctionInfo_rest\<close> on
  \<open>getSymbols_finish\<close> once that fetch has resumed. The reads of the editor (the
  current buffer, the cursor position) are awaited too; the model takes their answers
  from the world at the call, with no event in between.
\<close>

definition getCurrentFunctionInfo_rest ::
  "Position \<Rightarrow> addr option \<Rightarrow> world \<Rightarrow> js_value list \<times> world" where
  "getCurrentFunctionInfo_rest position syms w =
     (case syms of
        None \<Rightarrow> ([], w)
      | Some a \<Rightarrow>
          if heap w a = [] then ([], w)
          else (let w1 = reverse a w in (info_loop position (heap w1 a), w1)))"

definition getCurrentFunctionInfo ::
  "nat option \<Rightarrow> world \<Rightarrow> js_value list async \<times> world" where
  "getCurrentFunctionInfo arg w =
     (let bufnr = resolve_bufnr arg w in
      case documents w bufnr of
        None \<Rightarrow> (Returned [], w)
      | Some doc \<Rightarrow>
          if \<not> attached doc then (Returned [], w)
          else if \<not> has_provider doc then (Returned [], w)
          else (case getDocumentSymbols bufnr w of
                  (Awaiting t, w1) \<Rightarrow> (Awaiting t, w1)
                | (Returned syms, w1) \<Rightarrow>
                    (case getCurrentFunctionInfo_rest (cursor w) syms w1 of
                       (info, w2) \<Rightarrow> (Returned info, w2))))"

text \<open>
  \<^verbatim>\<open>getCurrentFunctionSymbol\<close>: lines 100 to 127 on the value of \<^verbatim>\<open>symbols\<close>, and
  the whole method up to that value. \<open>publish\<close> is the pair of notifications of lines
  102 and 103 and of lines 124 and 125. The result \<open>None\<close> is the \<^verbatim>\<open>return\<close> without
  a value.
\<close>

definition publish :: "nat \<Rightarrow> string \<Rightarrow> world \<Rightarrow> world" where
  "publish bufnr name w =
     w\<lparr>published := published w @
          [SetVar bufnr ''coc_current_function'' name, DoAutocmd ''CocStatusChange'']\<rparr>"

definition getCurrentFunctionSymbol_rest ::
  "nat \<Rightarrow> Position \<Rightarrow> addr option \<Rightarrow> world \<Rightarrow> string \<times> world" where
  "getCurrentFunctionSymbol_rest bufnr position syms w =
     (case syms of
        None \<Rightarrow> ([], publish bufnr [] w)
      | Some a \<Rightarrow>
          if heap w a = [] then ([], publish bufnr [] w)
          else (case alloc (filter (\<lambda>s. kind s \<in> set function_kinds) (heap w a)) w of
                  (a1, w1) \<Rightarrow>
                    (let w2 = reverse a1 w1;
                         functionName = name_loop (labels w2) position (heap w2 a1)
                     in if functionUpdate w2
                        then (functionName, publish bufnr functionName w2)
                        else (functionName, w2))))"

definition getCurrentFunctionSymbol ::
  "nat option \<Rightarrow> world \<Rightarrow> string option async \<times> world" where
  "getCurrentFunctionSymbol arg w =
     (let bufnr = resolve_bufnr arg w in
      case documents w bufnr of
        None \<Rightarrow> (Returned None, w)
      | Some doc \<Rightarrow>
          if \<not> attached doc then (Returned None, w)
          else if \<not> has_provider doc then (Returned None, w)
          else (case getDocumentSymbols bufnr w of
                  (Awaiting t, w1) \<Rightarrow> (Awaiting t, w1)
                | (Returned syms, w1) \<Rightarrow>
                    (case getCurrentFunctionSymbol_rest bufnr (cursor w) syms w1 of
                       (name, w2) \<Rightarrow> (Returned (Some name), w2))))"

text \<open>
  \<^verbatim>\<open>selectSymbolRange\<close>, lines 148 to 155: the search for \<^verbatim>\<open>selectRange\<close>, before
  the narrowing of the inner variant, on a non-empty array of symbols.
\<close>

definition selectSymbolRange_search ::
  "string list \<Rightarrow> Range \<Rightarrow> addr \<Rightarrow> world \<Rightarrow> Range option \<times> world" where
  "selectSymbolRange_search supportedSymbols rng a w =
     (case alloc (filter (\<lambda>s. kind s \<in> set supportedSymbols) (heap w a)) w of
        (a1, w1) \<Rightarrow> (let w2 = reverse a1 w1 in (select_loop rng (heap w2 a1), w2)))"

section \<open>Interleavings\<close>

text \<open>
  The methods are \<^verbatim>\<open>async\<close>: a call runs to its first \<^verbatim>\<open>await\<close> on the provider and
  the rest runs when the provider answers, with whatever was called in between. An
  interleaving is a list of events. Modelled from the spec: the document model and
  \<^verbatim>\<open>BufferSync\<close> are not among the sources; an edit makes the version of the document
  larger and calls \<^verbatim>\<open>onChange\<close> of its buffer (section 4.1). \<open>ProviderReturns t answer\<close>
  resumes the fetch that holds the token \<open>t\<close>; \<open>InsertEnter\<close> is the handler of lines
  36 to 39. A provider that fails (a rejected promise) is outside the model: the methods
  of the source raise nothing themselves.
\<close>

datatype event =
  DocChange nat
| GetSymbols nat
| FetchSymbols nat
| Elapsed nat
| ProviderReturns token "provider_result option"
| InsertEnter nat

definition step :: "(nat \<Rightarrow> string) \<Rightarrow> event \<Rightarrow> world \<Rightarrow> world" where
  "step gsk ev w =
     (case ev of
        DocChange b \<Rightarrow>
          (case documents w b of
             None \<Rightarrow> w
           | Some d \<Rightarrow>
               onChange b (w\<lparr>documents := (documents w)(b \<mapsto> d\<lparr>doc_version := doc_version d + 1\<rparr>)\<rparr>))
      | GetSymbols b \<Rightarrow> snd (getSymbols b w)
      | FetchSymbols b \<Rightarrow> fetchSymbols b w
      | Elapsed b \<Rightarrow> fetchSymbols_elapsed b w
      | ProviderReturns t answer \<Rightarrow>
          (case find (\<lambda>f. f_token f = t) (inflight w) of
             None \<Rightarrow> w
           | Some f \<Rightarrow>
               fetchSymbols_resume gsk f answer
                 (w\<lparr>inflight := filter (\<lambda>f. f_token f \<noteq> t) (inflight w)\<rparr>))
      | InsertEnter b \<Rightarrow> cancel b w)"

definition run :: "(nat \<Rightarrow> string) \<Rightarrow> event list \<Rightarrow> world \<Rightarrow> world" where
  "run gsk evs w = fold (step gsk) evs w"

text \<open>The tokens of the provider calls in flight that have not been cancelled.\<close>

definition live_tokens :: "world \<Rightarrow> token list" where
  "live_tokens w = filter (\<lambda>t. \<not> isCancellationRequested t w) (map f_token (inflight w))"

text \<open>
  A world with one attached document, number 1 at version 1, with a provider, and its
  freshly registered buffer.
\<close>

definition empty_world :: world where
  "empty_world =
     \<lparr>documents = Map.empty, buffers = Map.empty, heap = (\<lambda>_. []), next_addr = 0,
      next_token = 0, cancelled = [], inflight = [], provider_calls = 0, updates = [],
      published = [], functionUpdate = False, labels = Map.empty, current_bufnr = 1,
      cursor = \<lparr>line = 0, character = 0\<rparr>\<rparr>"

definition world1 :: world where
  "world1 =
     register_buffer 1
       (empty_world\<lparr>documents :=
          [1 \<mapsto> \<lparr>doc_version = 1, attached = True, buftype = [], has_provider = True\<rparr>]\<rparr>)"

section \<open>Concrete data\<close>

text \<open>
  A kind table for the examples (the numbers of the protocol for the four kinds that
  \<^verbatim>\<open>getCurrentFunctionSymbol\<close> keeps), and the nested symbols of section 8 of the
  specification: \<open>A\<close> from line 0 to line 100 holds \<open>B\<close> from 10 to 50, which holds
  \<open>C\<close> from 20 to 30.
\<close>

definition example_getSymbolKind :: "nat \<Rightarrow> string" where
  "example_getSymbolKind n =
     (if n = 5 then ''Class'' else if n = 6 then ''Method''
      else if n = 12 then ''Function'' else if n = 23 then ''Struct'' else ''Unknown'')"

definition lines :: "nat \<Rightarrow> nat \<Rightarrow> Range" where
  "lines a b = \<lparr>start = \<lparr>line = a, character = 0\<rparr>, end_pos = \<lparr>line = b, character = 0\<rparr>\<rparr>"

definition at_line :: "nat \<Rightarrow> Position" where
  "at_line n = \<lparr>line = n, character = 0\<rparr>"

definition symbol_C :: DocumentSymbol where
  "symbol_C = DocumentSymbol ''C'' [] 12 (lines 20 30) (lines 20 20) []"

definition symbol_B :: DocumentSymbol where
  "symbol_B = DocumentSymbol ''B'' [] 12 (lines 10 50) (lines 10 10) [symbol_C]"

definition symbol_A :: DocumentSymbol where
  "symbol_A = DocumentSymbol ''A'' [] 12 (lines 0 100) (lines 0 0) [symbol_B]"

text \<open>
  \<open>world_ABC\<close>: the buffer of document 1 has fetched and committed the three symbols
  for version 1. \<open>world_no_symbols\<close>: it has fetched and committed an empty array.
\<close>

definition world_ABC :: world where
  "world_ABC =
     run example_getSymbolKind
       [GetSymbols 1, ProviderReturns 0 (Some (DocumentSymbols [symbol_A]))] world1"

definition world_no_symbols :: world where
  "world_no_symbols =
     run example_getSymbolKind
       [GetSymbols 1, ProviderReturns 0 (Some (SymbolInformations []))] world1"

definition this_ABC :: SymbolsBuffer where
  "this_ABC =
     \<lparr>version = Some 1, autoUpdate = True, symbols = Some 1, tokenSource = None,
      timer = False\<rparr>"

definition doc1 :: Document where
  "doc1 = \<lparr>doc_version = 1, attached = True, buftype = [], has_provider = True\<rparr>"

text \<open>
  \<open>world_detached\<close>: the current buffer, number 1, has a document that is not attached.
\<close>

definition world_detached :: world where
  "world_detached = empty_world\<lparr>documents := [1 \<mapsto> doc1\<lparr>attached := False\<rparr>]\<rparr>"

text \<open>
  \<open>world_fetching\<close>: \<^verbatim>\<open>getSymbols\<close> awaits the provider call \<open>fetch0\<close>.
  \<open>world_cancelled\<close>: the same, and \<^verbatim>\<open>InsertEnter\<close> has cancelled the token.
\<close>

definition fetch0 :: Fetch where
  "fetch0 = \<lparr>f_bufnr = 1, f_version = 1, f_token = 0\<rparr>"

definition world_fetching :: world where
  "world_fetching = run example_getSymbolKind [GetSymbols 1] world1"

definition world_cancelled :: world where
  "world_cancelled = run example_getSymbolKind [GetSymbols 1, InsertEnter 1] world1"

text \<open>
  Two interleavings. In \<open>orphan_trace\<close> a second \<^verbatim>\<open>getSymbols\<close> is called while the
  first awaits the provider, the first (cancelled) fetch then resumes, and a third
  \<^verbatim>\<open>getSymbols\<close> is called. In \<open>stale_trace\<close> the document is edited after the first
  fetch has resumed, a third \<^verbatim>\<open>getSymbols\<close> fetches version 2 and its answer arrives;
  the answer for the second fetch is still to come.
\<close>

definition orphan_trace :: "event list" where
  "orphan_trace = [GetSymbols 1, GetSymbols 1, ProviderReturns 0 None, GetSymbols 1]"

definition stale_trace :: "event list" where
  "stale_trace =
     [GetSymbols 1, GetSymbols 1, ProviderReturns 0 None, DocChange 1, GetSymbols 1,
      ProviderReturns 2 (Some (DocumentSymbols [symbol_A]))]"

section \<open>Vocabulary of the claims about the queries\<close>

text \<open>
  A callback entry is a symbol whose text ends with \<^verbatim>\<open>) callback\<close>; a symbol holds a
  position when it has a range with the position inside; a candidate of the
  current-function search holds the position and is not a callback entry.
\<close>

definition callback_entry :: "SymbolInfo \<Rightarrow> bool" where
  "callback_entry s \<longleftrightarrow> endsWith (text_sym s) '') callback''"

definition holds :: "Position \<Rightarrow> SymbolInfo \<Rightarrow> bool" where
  "holds p s \<longleftrightarrow> (case range_sym s of None \<Rightarrow> False | Some r \<Rightarrow> positionInRange p r = 0)"

definition candidate :: "Position \<Rightarrow> SymbolInfo \<Rightarrow> bool" where
  "candidate p s \<longleftrightarrow> holds p s \<and> \<not> callback_entry s"






text \<open>
  One range properly encloses another when it starts no later and ends no earlier, and
  one of the two is strict. \<open>walk\<close> is the repeated invocation of the selection, each
  time with the range selected before, at most \<open>n\<close> times.
\<close>

definition properly_encloses :: "Range \<Rightarrow> Range \<Rightarrow> bool" where
  "properly_encloses outer inner \<longleftrightarrow>
     \<not> position_lt (start inner) (start outer) \<and>
     \<not> position_lt (end_pos outer) (end_pos inner) \<and>
     (position_lt (start outer) (start inner) \<or> position_lt (end_pos inner) (end_pos outer))"

fun walk :: "nat \<Rightarrow> string list \<Rightarrow> addr \<Rightarrow> Range \<Rightarrow> world \<Rightarrow> Range list" where
  "walk 0 supportedSymbols a rng w = []"
| "walk (Suc n) supportedSymbols a rng w =
     (case selectSymbolRange_search supportedSymbols rng a w of
        (None, w1) \<Rightarrow> []
      | (Some r, w1) \<Rightarrow> r # walk n supportedSymbols a r w1)"

text \<open>The flattened entries of the three nested symbols, and a snapshot with a callback entry.\<close>

definition info_A :: SymbolInfo where
  "info_A =
     \<lparr>col = 1, lnum = 1, text_sym = ''A'', level = 0, kind = ''Function'',
      range_sym = Some (lines 0 100), selectionRange = Some (lines 0 0),
      containerName = None\<rparr>"

definition info_B :: SymbolInfo where
  "info_B =
     \<lparr>col = 1, lnum = 11, text_sym = ''B'', level = 1, kind = ''Function'',
      range_sym = Some (lines 10 50), selectionRange = Some (lines 10 10),
      containerName = None\<rparr>"

definition info_C :: SymbolInfo where
  "info_C =
     \<lparr>col = 1, lnum = 21, text_sym = ''C'', level = 2, kind = ''Function'',
      range_sym = Some (lines 20 30), selectionRange = Some (lines 20 20),
      containerName = None\<rparr>"

definition world_callback :: world where
  "world_callback =
     run example_getSymbolKind
       [GetSymbols 1,
        ProviderReturns 0 (Some (SymbolInformations
          [\<lparr>si_name = ''run'', si_kind = 12, si_uri = [], si_range = lines 0 40,
            si_containerName = None\<rparr>,
           \<lparr>si_name = ''processData() callback'', si_kind = 12, si_uri = [],
            si_range = lines 5 20, si_containerName = None\<rparr>]))]
       world1"

section \<open>The claims about the cache\<close>

lemmas cache_defs =
  run_def step_def world1_def empty_world_def register_buffer_def alloc_def getSymbols_def
  cancel_def onChange_def fetchSymbols_start_def fetchSymbols_resume_def
  getSymbols_finish_def isCancellationRequested_def fetchSymbols_def
  fetchSymbols_elapsed_def

text \<open>
  C1 (the code does otherwise). The claim: in every reachable state at most one
  provider call with a token that is not cancelled is in flight. In the code the
  resumed fetch clears \<^verbatim>\<open>this.tokenSource\<close> (line 216) whether or not it still holds
  its own token: after \<open>orphan_trace\<close> the calls with the tokens 1 and 2 are both in
  flight and neither is cancelled. The debounced path never cancels: a pending call
  that runs while \<^verbatim>\<open>getSymbols\<close> awaits leaves the tokens 0 and 1 in flight.
\<close>

theorem orphaned_token_two_in_flight:
  "live_tokens (run example_getSymbolKind orphan_trace world1) = [1, 2] \<and>
   live_tokens (run example_getSymbolKind [GetSymbols 1, FetchSymbols 1, Elapsed 1] world1)
     = [0, 1]"
  by (simp add: cache_defs orphan_trace_def live_tokens_def)

text \<open>
  C2 (the code does otherwise). The claim: the committed version never decreases. After
  \<open>stale_trace\<close> the committed version is 2; the fetch with token 1, which sampled
  version 1, was orphaned by line 216, so the edit did not cancel it, and when its
  answer arrives it commits version 1 over version 2.
\<close>

theorem stale_fetch_lowers_version:
  "map_option version (buffers (run example_getSymbolKind stale_trace world1) 1)
     = Some (Some 2) \<and>
   map_option version
     (buffers (run example_getSymbolKind
        (stale_trace @ [ProviderReturns 1 (Some (SymbolInformations []))]) world1) 1)
     = Some (Some 1)"
  by (simp add: cache_defs stale_trace_def)

text \<open>
  C4. When the committed version is the version of the document, \<^verbatim>\<open>getSymbols\<close>
  returns the committed array, and so does a second call right after it; the two calls
  change nothing but \<^verbatim>\<open>autoUpdate\<close>: no provider call is made, none is put in flight,
  and the store is the same.
\<close>

theorem getSymbols_idempotent:
  assumes "buffers w b = Some this" and "documents w b = Some d"
    and "version this = Some (doc_version d)"
  shows "getSymbols b w =
           (Returned (symbols this), w\<lparr>buffers := (buffers w)(b \<mapsto> this\<lparr>autoUpdate := True\<rparr>)\<rparr>) \<and>
         getSymbols b (snd (getSymbols b w)) = (Returned (symbols this), snd (getSymbols b w)) \<and>
         provider_calls (snd (getSymbols b (snd (getSymbols b w)))) = provider_calls w \<and>
         inflight (snd (getSymbols b (snd (getSymbols b w)))) = inflight w \<and>
         heap (snd (getSymbols b (snd (getSymbols b w)))) = heap w"
  using assms by (simp add: getSymbols_def Let_def)

theorem getSymbols_idempotent_witness:
  "buffers world_ABC 1 = Some this_ABC \<and> documents world_ABC 1 = Some doc1 \<and>
   version this_ABC = Some (doc_version doc1) \<and>
   getSymbols 1 world_ABC =
     (Returned (symbols this_ABC),
      world_ABC\<lparr>buffers := (buffers world_ABC)(1 \<mapsto> this_ABC\<lparr>autoUpdate := True\<rparr>)\<rparr>) \<and>
   getSymbols 1 (snd (getSymbols 1 world_ABC))
     = (Returned (symbols this_ABC), snd (getSymbols 1 world_ABC)) \<and>
   provider_calls (snd (getSymbols 1 (snd (getSymbols 1 world_ABC))))
     = provider_calls world_ABC \<and>
   inflight (snd (getSymbols 1 (snd (getSymbols 1 world_ABC)))) = inflight world_ABC \<and>
   heap (snd (getSymbols 1 (snd (getSymbols 1 world_ABC)))) = heap world_ABC"
proof -
  have h1: "buffers world_ABC 1 = Some this_ABC"
    by (simp add: cache_defs world_ABC_def this_ABC_def)
  have h2: "documents world_ABC 1 = Some doc1"
    by (simp add: cache_defs world_ABC_def doc1_def)
  have h3: "version this_ABC = Some (doc_version doc1)"
    by (simp add: this_ABC_def doc1_def)
  show ?thesis
    using h1 h2 h3 getSymbols_idempotent [OF h1 h2 h3] by blast
qed

text \<open>
  C6 (corrected). The claim fails for an empty array: from a state with the three
  symbols committed for version 1, an edit and a fetch that is answered with an empty
  array commit version 2.
\<close>

theorem empty_answer_is_committed:
  "map_option version
     (buffers (run example_getSymbolKind
        [DocChange 1, GetSymbols 1, ProviderReturns 1 (Some (SymbolInformations []))]
        world_ABC) 1)
   \<noteq> map_option version
     (buffers (run example_getSymbolKind [DocChange 1, GetSymbols 1] world_ABC) 1)"
  by (simp add: cache_defs world_ABC_def)

text \<open>
  C6, as amended. A fetch that resumes with no answer (\<^verbatim>\<open>null\<close> or
  \<^verbatim>\<open>undefined\<close>), or with its token cancelled, changes neither the store, nor the
  committed array, nor the committed version of any buffer.
\<close>

theorem fetch_resume_no_change:
  "answer = None \<or> isCancellationRequested (f_token f) w \<Longrightarrow>
     heap (fetchSymbols_resume gsk f answer w) = heap w \<and>
     map_option symbols (buffers (fetchSymbols_resume gsk f answer w) b)
       = map_option symbols (buffers w b) \<and>
     map_option version (buffers (fetchSymbols_resume gsk f answer w) b)
       = map_option version (buffers w b)"
  by (auto simp: fetchSymbols_resume_def Let_def isCancellationRequested_def
      split: option.splits)

theorem fetch_resume_no_change_witness:
  "isCancellationRequested (f_token fetch0) world_cancelled \<and>
   heap (fetchSymbols_resume example_getSymbolKind fetch0
           (Some (DocumentSymbols [symbol_A])) world_cancelled) = heap world_cancelled \<and>
   map_option symbols (buffers (fetchSymbols_resume example_getSymbolKind fetch0
           (Some (DocumentSymbols [symbol_A])) world_cancelled) 1) = Some (Some 0) \<and>
   map_option version (buffers (fetchSymbols_resume example_getSymbolKind fetch0
           (Some (DocumentSymbols [symbol_A])) world_cancelled) 1) = Some None \<and>
   heap (fetchSymbols_resume example_getSymbolKind fetch0 None world_fetching)
     = heap world_fetching \<and>
   map_option symbols (buffers (fetchSymbols_resume example_getSymbolKind fetch0 None
           world_fetching) 1) = Some (Some 0) \<and>
   map_option version (buffers (fetchSymbols_resume example_getSymbolKind fetch0 None
           world_fetching) 1) = Some None"
proof -
  have c: "isCancellationRequested (f_token fetch0) world_cancelled"
    by (simp add: cache_defs world_cancelled_def fetch0_def)
  have s: "map_option symbols (buffers world_cancelled 1) = Some (Some 0)"
    by (simp add: cache_defs world_cancelled_def)
  have v: "map_option version (buffers world_cancelled 1) = Some None"
    by (simp add: cache_defs world_cancelled_def)
  have s': "map_option symbols (buffers world_fetching 1) = Some (Some 0)"
    by (simp add: cache_defs world_fetching_def)
  have v': "map_option version (buffers world_fetching 1) = Some None"
    by (simp add: cache_defs world_fetching_def)
  show ?thesis
    using c s v s' v'
      fetch_resume_no_change [of "Some (DocumentSymbols [symbol_A])" fetch0 world_cancelled
        example_getSymbolKind 1]
      fetch_resume_no_change [of None fetch0 world_fetching example_getSymbolKind 1]
    by simp
qed

text \<open>
  What the other fetches do: an answer that is an array, empty or not, with a token that
  is not cancelled, is committed in normalised form under the version the fetch sampled.
\<close>

lemma fetch_resume_commits:
  assumes "\<not> isCancellationRequested (f_token f) w" and "buffers w (f_bufnr f) = Some this"
  shows "\<exists>this' a. buffers (fetchSymbols_resume gsk f (Some syms) w) (f_bufnr f) = Some this' \<and>
           version this' = Some (f_version f) \<and> symbols this' = Some a \<and>
           heap (fetchSymbols_resume gsk f (Some syms) w) a = normalise gsk syms"
  using assms
  by (auto simp: fetchSymbols_resume_def Let_def isCancellationRequested_def alloc_def)

lemma normalise_empty:
  "normalise gsk (SymbolInformations []) = []" "normalise gsk (DocumentSymbols []) = []"
  by (simp_all add: normalise_def isDocumentSymbols_def sort_by_range_def)

section \<open>The claims about the operations of Symbols\<close>

text \<open>
  C10. For a buffer whose document is missing, not attached or without a provider,
  \<^verbatim>\<open>getCurrentFunctionSymbol\<close> returns no value and \<^verbatim>\<open>getCurrentFunctionInfo\<close> the
  empty array, and the world is as it was: nothing is published and the provider is not
  called.
\<close>

theorem no_document_no_effect:
  "documents w (resolve_bufnr arg w) = None \<or>
     (\<exists>d. documents w (resolve_bufnr arg w) = Some d \<and> (\<not> attached d \<or> \<not> has_provider d)) \<Longrightarrow>
   getCurrentFunctionSymbol arg w = (Returned None, w) \<and>
   getCurrentFunctionInfo arg w = (Returned [], w)"
  by (auto simp: getCurrentFunctionSymbol_def getCurrentFunctionInfo_def Let_def)

theorem no_document_no_effect_witness:
  "documents empty_world (resolve_bufnr (Some 7) empty_world) = None \<and>
   getCurrentFunctionSymbol (Some 7) empty_world = (Returned None, empty_world) \<and>
   getCurrentFunctionInfo (Some 7) empty_world = (Returned [], empty_world) \<and>
   documents world_detached (resolve_bufnr None world_detached) = Some (doc1\<lparr>attached := False\<rparr>) \<and>
   getCurrentFunctionSymbol None world_detached = (Returned None, world_detached) \<and>
   getCurrentFunctionInfo None world_detached = (Returned [], world_detached)"
proof -
  have h: "documents empty_world (resolve_bufnr (Some 7) empty_world) = None"
    by (simp add: empty_world_def resolve_bufnr_def)
  have d: "documents world_detached (resolve_bufnr None world_detached)
      = Some (doc1\<lparr>attached := False\<rparr>)"
    by (simp add: world_detached_def empty_world_def resolve_bufnr_def)
  have e: "\<exists>d. documents world_detached (resolve_bufnr None world_detached) = Some d \<and>
      (\<not> attached d \<or> \<not> has_provider d)"
    using d by simp
  show ?thesis
    using h d no_document_no_effect [of empty_world "Some 7"]
      no_document_no_effect [of world_detached None, OF disjI2, OF e]
    by simp
qed

section \<open>Facts about the concrete data\<close>

text \<open>
  The state \<open>world_ABC\<close> evaluated once, for the examples below: its buffer, its
  document and the committed array.
\<close>

lemma normalise_ABC:
  "normalise example_getSymbolKind (DocumentSymbols [symbol_A]) = [info_A, info_B, info_C]"
  by (simp add: normalise_def isDocumentSymbols_def sort_by_range_def symbol_A_def
      symbol_B_def symbol_C_def info_A_def info_B_def info_C_def example_getSymbolKind_def
      lines_def)

lemma world_ABC_facts:
  "buffers world_ABC 1 = Some this_ABC" "documents world_ABC 1 = Some doc1"
  "heap world_ABC 1 = [info_A, info_B, info_C]" "next_addr world_ABC = 2"
  "labels world_ABC = Map.empty" "functionUpdate world_ABC = False"
  by (simp_all add: cache_defs world_ABC_def this_ABC_def doc1_def normalise_ABC)

lemmas world_ABC_simps = world_ABC_facts world_ABC_facts [unfolded One_nat_def]

lemma holds_lines:
  "positionInRange (at_line n) (lines a b) = 0 \<longleftrightarrow> a \<le> n \<and> n \<le> b"
  by (auto simp: positionInRange_def position_lt_def at_line_def lines_def)

lemma endsWith_examples:
  "\<not> endsWith ''A'' '') callback''" "\<not> endsWith ''B'' '') callback''"
  "\<not> endsWith ''C'' '') callback''" "\<not> endsWith ''run'' '') callback''"
  "endsWith ''processData() callback'' '') callback''"
  by (simp_all add: endsWith_def)

lemma info_ABC_fields:
  "range_sym info_A = Some (lines 0 100)" "range_sym info_B = Some (lines 10 50)"
  "range_sym info_C = Some (lines 20 30)"
  "text_sym info_A = ''A''" "text_sym info_B = ''B''" "text_sym info_C = ''C''"
  "kind info_A = ''Function''" "kind info_B = ''Function''" "kind info_C = ''Function''"
  "level info_A = 0" "level info_B = 1" "level info_C = 2"
  by (simp_all add: info_A_def info_B_def info_C_def)

lemma lines_fields: "start (lines a b) = at_line a" "end_pos (lines a b) = at_line b"
  by (simp_all add: lines_def at_line_def)

section \<open>The order of positions\<close>

text \<open>
  \<open>position_lt\<close> is a strict linear order; a position is in a range when it is
  neither before its start nor after its end.
\<close>

lemma position_lt_le_trans: "position_lt a b \<Longrightarrow> \<not> position_lt c b \<Longrightarrow> position_lt a c"
  by (auto simp: position_lt_def)

lemma position_le_lt_trans: "\<not> position_lt b a \<Longrightarrow> position_lt b c \<Longrightarrow> position_lt a c"
  by (auto simp: position_lt_def)

lemma position_le_trans: "\<not> position_lt b a \<Longrightarrow> \<not> position_lt c b \<Longrightarrow> \<not> position_lt c a"
  by (auto simp: position_lt_def)

lemma position_lt_irrefl: "\<not> position_lt a a"
  by (simp add: position_lt_def)

lemma position_eqI: "\<not> position_lt a b \<Longrightarrow> \<not> position_lt b a \<Longrightarrow> a = (b :: Position)"
  by (cases a; cases b) (auto simp: position_lt_def)

lemma positionInRange_zero:
  "positionInRange p r = 0 \<longleftrightarrow> \<not> position_lt p (start r) \<and> \<not> position_lt (end_pos r) p"
  by (simp add: positionInRange_def)



lemma rangeInRange_encloses:
  assumes "rangeInRange rng r" and "r \<noteq> rng"
  shows "properly_encloses r rng"
proof -
  have a: "\<not> position_lt (start rng) (start r)" "\<not> position_lt (end_pos r) (end_pos rng)"
    using assms(1) by (simp_all add: rangeInRange_def positionInRange_zero)
  have "start r \<noteq> start rng \<or> end_pos r \<noteq> end_pos rng"
    using assms(2) by (cases r; cases rng) auto
  then have "position_lt (start r) (start rng) \<or> position_lt (end_pos rng) (end_pos r)"
    using a position_eqI by blast
  with a show ?thesis by (simp add: properly_encloses_def)
qed

lemma properly_encloses_trans:
  assumes "properly_encloses c b" and "properly_encloses b a"
  shows "properly_encloses c a"
proof -
  have 1: "\<not> position_lt (start b) (start c)" "\<not> position_lt (end_pos c) (end_pos b)"
    and 2: "position_lt (start c) (start b) \<or> position_lt (end_pos b) (end_pos c)"
    and 3: "\<not> position_lt (start a) (start b)" "\<not> position_lt (end_pos b) (end_pos a)"
    using assms by (simp_all add: properly_encloses_def)
  have s: "\<not> position_lt (start a) (start c)" using position_le_trans [OF 1(1) 3(1)] .
  have e: "\<not> position_lt (end_pos c) (end_pos a)" using position_le_trans [OF 3(2) 1(2)] .
  from 2 have "position_lt (start c) (start a) \<or> position_lt (end_pos a) (end_pos c)"
    using position_lt_le_trans [OF _ 3(1)] position_le_lt_trans [OF 3(2)] by blast
  with s e show ?thesis by (simp add: properly_encloses_def)
qed

lemma properly_encloses_irrefl: "\<not> properly_encloses a a"
  by (simp add: properly_encloses_def position_lt_irrefl)

section \<open>The flattened list of a hierarchy\<close>













section \<open>The loops\<close>

text \<open>
  Each loop stops at the first candidate of the list it scans. On the reverse of a list
  that is ordered by depth, that is a deepest candidate.
\<close>

lemma candidate_test:
  "candidate p s \<longleftrightarrow>
     (\<exists>r. range_sym s = Some r \<and> positionInRange p r = 0 \<and>
          \<not> endsWith (text_sym s) '') callback'')"
  by (auto simp: candidate_def holds_def callback_entry_def split: option.splits)

lemma info_loop_step:
  "info_loop p (x # xs) =
     (if candidate p x
      then (case range_sym x of
              None \<Rightarrow> []
            | Some r \<Rightarrow> [JString (text_sym x), JPosition (start r), JPosition (end_pos r)])
      else info_loop p xs)"
  by (auto simp: candidate_test split: option.splits)

lemma name_loop_step:
  "name_loop lb p (x # xs) = (if candidate p x then labelled lb x else name_loop lb p xs)"
  by (auto simp: candidate_test split: option.splits)



lemma info_loop_filter:
  "info_loop p (filter (\<lambda>s. \<not> callback_entry s) xs) = info_loop p xs"
  by (induction xs) (auto simp: callback_entry_def split: option.splits)

lemma name_loop_filter:
  "name_loop lb p (filter (\<lambda>s. \<not> callback_entry s) xs) = name_loop lb p xs"
  by (induction xs) (auto simp: callback_entry_def split: option.splits)

lemma info_loop_shape:
  "info_loop p xs = [] \<or>
   (\<exists>s\<in>set xs. \<exists>r. range_sym s = Some r \<and> candidate p s \<and>
      info_loop p xs = [JString (text_sym s), JPosition (start r), JPosition (end_pos r)])"
proof (induction xs)
  case Nil
  then show ?case by simp
next
  case (Cons x xs)
  show ?case
  proof (cases "candidate p x")
    case True
    then obtain r where r: "range_sym x = Some r"
      by (auto simp: candidate_test)
    have "info_loop p (x # xs) =
        [JString (text_sym x), JPosition (start r), JPosition (end_pos r)]"
      using True r by (simp only: info_loop_step) simp
    with True r show ?thesis by auto
  next
    case False
    then have "info_loop p (x # xs) = info_loop p xs"
      by (simp only: info_loop_step) simp
    with Cons show ?thesis by auto
  qed
qed

text \<open>
  For every list, ordered or not: each loop on the reverse answers with the last entry
  of the list that holds the position and is not a callback entry, whatever comes after
  it, and with the empty result when there is no such entry.
\<close>

lemma candidate_holds: "candidate p x \<longleftrightarrow> holds p x \<and> \<not> callback_entry x"
  by (simp add: candidate_def)

lemma info_loop_rev_last:
  "((\<forall>x\<in>set xs. \<not> holds p x \<or> callback_entry x) \<and> info_loop p (rev xs) = []) \<or>
   (\<exists>ys x zs r. xs = ys @ x # zs \<and> holds p x \<and> \<not> callback_entry x \<and>
      (\<forall>z\<in>set zs. \<not> holds p z \<or> callback_entry z) \<and> range_sym x = Some r \<and>
      info_loop p (rev xs) = [JString (text_sym x), JPosition (start r), JPosition (end_pos r)])"
proof (induction xs rule: rev_induct)
  case Nil
  then show ?case by simp
next
  case (snoc y xs)
  show ?case
  proof (cases "candidate p y")
    case True
    then obtain r where r: "range_sym y = Some r"
      by (auto simp: candidate_test)
    have "info_loop p (rev (xs @ [y])) =
        [JString (text_sym y), JPosition (start r), JPosition (end_pos r)]"
      using True r by (simp only: rev_append rev.simps append.simps info_loop_step) simp
    moreover have "xs @ [y] = xs @ y # []" by simp
    ultimately show ?thesis
      using True r unfolding candidate_holds by (intro disjI2 exI [of _ xs] exI [of _ y] exI [of _ "[]"] exI [of _ r]) simp
  next
    case False
    then have eq: "info_loop p (rev (xs @ [y])) = info_loop p (rev xs)"
      by (simp only: rev_append rev.simps append.simps info_loop_step) simp
    from snoc show ?thesis
    proof (elim disjE exE conjE)
      assume "\<forall>x\<in>set xs. \<not> holds p x \<or> callback_entry x" "info_loop p (rev xs) = []"
      with False eq show ?thesis by (auto simp: candidate_holds)
    next
      fix ys x zs r
      assume a: "xs = ys @ x # zs" "holds p x" "\<not> callback_entry x"
        "\<forall>z\<in>set zs. \<not> holds p z \<or> callback_entry z" "range_sym x = Some r"
        "info_loop p (rev xs) = [JString (text_sym x), JPosition (start r), JPosition (end_pos r)]"
      have "xs @ [y] = ys @ x # (zs @ [y])" using a(1) by simp
      moreover have "\<forall>z\<in>set (zs @ [y]). \<not> holds p z \<or> callback_entry z"
        using a(4) False by (auto simp: candidate_holds)
      ultimately show ?thesis
        using a(2,3,5,6) eq
        by (intro disjI2 exI [of _ ys] exI [of _ x] exI [of _ "zs @ [y]"] exI [of _ r]) simp
    qed
  qed
qed

lemma name_loop_rev_last:
  "((\<forall>x\<in>set xs. \<not> holds p x \<or> callback_entry x) \<and> name_loop lb p (rev xs) = []) \<or>
   (\<exists>ys x zs. xs = ys @ x # zs \<and> holds p x \<and> \<not> callback_entry x \<and>
      (\<forall>z\<in>set zs. \<not> holds p z \<or> callback_entry z) \<and>
      name_loop lb p (rev xs) = labelled lb x)"
proof (induction xs rule: rev_induct)
  case Nil
  then show ?case by simp
next
  case (snoc y xs)
  show ?case
  proof (cases "candidate p y")
    case True
    have "name_loop lb p (rev (xs @ [y])) = labelled lb y"
      using True by (simp only: rev_append rev.simps append.simps name_loop_step) simp
    then show ?thesis
      using True unfolding candidate_holds
      by (intro disjI2 exI [of _ xs] exI [of _ y] exI [of _ "[]"]) simp
  next
    case False
    then have eq: "name_loop lb p (rev (xs @ [y])) = name_loop lb p (rev xs)"
      by (simp only: rev_append rev.simps append.simps name_loop_step) simp
    from snoc show ?thesis
    proof (elim disjE exE conjE)
      assume "\<forall>x\<in>set xs. \<not> holds p x \<or> callback_entry x" "name_loop lb p (rev xs) = []"
      with False eq show ?thesis by (auto simp: candidate_holds)
    next
      fix ys x zs
      assume a: "xs = ys @ x # zs" "holds p x" "\<not> callback_entry x"
        "\<forall>z\<in>set zs. \<not> holds p z \<or> callback_entry z"
        "name_loop lb p (rev xs) = labelled lb x"
      have "xs @ [y] = ys @ x # (zs @ [y])" using a(1) by simp
      moreover have "\<forall>z\<in>set (zs @ [y]). \<not> holds p z \<or> callback_entry z"
        using a(4) False by (auto simp: candidate_holds)
      ultimately show ?thesis
        using a(2,3,5) eq
        by (intro disjI2 exI [of _ ys] exI [of _ x] exI [of _ "zs @ [y]"]) simp
    qed
  qed
qed

lemma select_loop_Some:
  "select_loop rng xs = Some r \<Longrightarrow> r \<noteq> rng \<and> rangeInRange rng r"
  by (induction xs) (auto simp: equals_def split: option.splits if_splits)

section \<open>The operations on the store\<close>

text \<open>
  What the three queries return, in terms of their loops and the cached array, and what
  they leave in the store.
\<close>

lemma info_rest_eq:
  "fst (getCurrentFunctionInfo_rest p (Some a) w) = info_loop p (rev (heap w a))"
  by (simp add: getCurrentFunctionInfo_rest_def reverse_def Let_def)

lemma info_rest_heap:
  "heap (snd (getCurrentFunctionInfo_rest p (Some a) w)) a = rev (heap w a)"
  by (simp add: getCurrentFunctionInfo_rest_def reverse_def Let_def)

lemma symbol_rest_eq:
  "fst (getCurrentFunctionSymbol_rest b p (Some a) w) =
     name_loop (labels w) p (rev (filter (\<lambda>s. kind s \<in> set function_kinds) (heap w a)))"
  by (simp add: getCurrentFunctionSymbol_rest_def reverse_def Let_def alloc_def publish_def)

lemma search_eq:
  "fst (selectSymbolRange_search supportedSymbols rng a w) =
     select_loop rng (rev (filter (\<lambda>s. kind s \<in> set supportedSymbols) (heap w a)))"
  by (simp add: selectSymbolRange_search_def reverse_def Let_def alloc_def)

lemma search_world:
  "heap (snd (selectSymbolRange_search supportedSymbols rng a w)) =
     (heap w)(next_addr w := rev (filter (\<lambda>s. kind s \<in> set supportedSymbols) (heap w a)))"
  "next_addr (snd (selectSymbolRange_search supportedSymbols rng a w)) = next_addr w + 1"
  by (simp_all add: selectSymbolRange_search_def reverse_def Let_def alloc_def)

lemma search_Some:
  assumes "fst (selectSymbolRange_search supportedSymbols rng a w) = Some r"
  shows "rangeInRange rng r \<and> r \<noteq> rng \<and> properly_encloses r rng"
  using select_loop_Some [of rng _ r] assms rangeInRange_encloses [of rng r]
  unfolding search_eq by blast

lemma walk_chain:
  "sorted_wrt (\<lambda>x y. properly_encloses y x) (rng # walk n supportedSymbols a rng w)"
proof (induction n arbitrary: rng w)
  case 0
  then show ?case by simp
next
  case (Suc n)
  show ?case
  proof (cases "selectSymbolRange_search supportedSymbols rng a w")
    case (Pair res w1)
    show ?thesis
    proof (cases res)
      case None
      with Pair show ?thesis by simp
    next
      case (Some r)
      have e: "properly_encloses r rng"
        using search_Some [of supportedSymbols rng a w r] Pair Some by simp
      have c: "sorted_wrt (\<lambda>x y. properly_encloses y x) (r # walk n supportedSymbols a r w1)"
        by (rule Suc.IH)
      then have "\<forall>y\<in>set (walk n supportedSymbols a r w1). properly_encloses y rng"
        using e by (auto intro: properly_encloses_trans)
      with c e Pair Some show ?thesis by simp
    qed
  qed
qed

lemma chain_distinct:
  "sorted_wrt (\<lambda>x y. properly_encloses y x) xs \<Longrightarrow> distinct xs"
  by (induction xs) (auto simp: properly_encloses_irrefl)

section \<open>The claims about the queries\<close>

text \<open>
  C3 (the code does otherwise). The claim: a query leaves the cached sequence as it
  was. \<^verbatim>\<open>getCurrentFunctionInfo\<close> reverses the array that \<^verbatim>\<open>getSymbols\<close> returned,
  which is \<^verbatim>\<open>this.symbols\<close> itself (the two other queries reverse the copy that
  \<^verbatim>\<open>filter\<close> made). With \<open>A\<close>, \<open>B\<close>, \<open>C\<close> cached and the cursor on line 25, the
  query answers \<open>C\<close> and leaves \<open>C\<close>, \<open>B\<close>, \<open>A\<close> in the cache; the same query again
  answers \<open>A\<close>.
\<close>

theorem query_reverses_cached_array:
  "map text_sym (heap world_ABC 1) = [''A'', ''B'', ''C''] \<and>
   fst (getCurrentFunctionInfo (Some 1) (world_ABC\<lparr>cursor := at_line 25\<rparr>))
     = Returned [JString ''C'', JPosition (at_line 20), JPosition (at_line 30)] \<and>
   map text_sym
     (heap (snd (getCurrentFunctionInfo (Some 1) (world_ABC\<lparr>cursor := at_line 25\<rparr>))) 1)
     = [''C'', ''B'', ''A''] \<and>
   fst (getCurrentFunctionInfo (Some 1)
          (snd (getCurrentFunctionInfo (Some 1) (world_ABC\<lparr>cursor := at_line 25\<rparr>))))
     = Returned [JString ''A'', JPosition (at_line 0), JPosition (at_line 100)]"
  by (simp add: getCurrentFunctionInfo_def getDocumentSymbols_def getSymbols_def
      getCurrentFunctionInfo_rest_def reverse_def resolve_bufnr_def Let_def world_ABC_simps
      this_ABC_def doc1_def info_ABC_fields holds_lines endsWith_examples lines_fields)

lemma world_no_symbols_facts:
  "buffers world_no_symbols 1 = Some this_ABC" "documents world_no_symbols 1 = Some doc1"
  "heap world_no_symbols 1 = []" "published world_no_symbols = []"
  "functionUpdate world_no_symbols = False"
  by (simp_all add: cache_defs world_no_symbols_def this_ABC_def doc1_def normalise_empty)

text \<open>
  C5 (the code does otherwise). The claim: with the preference off nothing is published,
  also when the snapshot is empty or absent. Lines 101 to 105 publish the empty name
  before the preference is looked at (line 123): in \<open>world_no_symbols\<close> the preference is
  off, nothing has been published, and \<^verbatim>\<open>getCurrentFunctionSymbol\<close> sets the variable
  and fires the autocommand.
\<close>

theorem empty_snapshot_is_published:
  "functionUpdate world_no_symbols = False \<and> published world_no_symbols = [] \<and>
   fst (getCurrentFunctionSymbol (Some 1) world_no_symbols) = Returned (Some []) \<and>
   published (snd (getCurrentFunctionSymbol (Some 1) world_no_symbols))
     = [SetVar 1 ''coc_current_function'' [], DoAutocmd ''CocStatusChange'']"
  by (simp add: getCurrentFunctionSymbol_def getDocumentSymbols_def getSymbols_def
      getCurrentFunctionSymbol_rest_def publish_def resolve_bufnr_def Let_def
      world_no_symbols_facts world_no_symbols_facts [unfolded One_nat_def]
      this_ABC_def doc1_def)






lemma world_callback_heap:
  "map text_sym (heap world_callback 1) = [''run'', ''processData() callback'']"
  "map range_sym (heap world_callback 1) = [Some (lines 0 40), Some (lines 5 20)]"
  by (simp_all add: cache_defs world_callback_def normalise_def isDocumentSymbols_def
      sort_by_range_def flat_info_def range_before_def position_lt_def lines_def)

lemma world_callback_entries:
  "map kind (heap world_callback 1) = [''Function'', ''Function'']"
  "labels world_callback = Map.empty"
  by (simp_all add: cache_defs world_callback_def normalise_def isDocumentSymbols_def
      sort_by_range_def flat_info_def range_before_def position_lt_def lines_def
      example_getSymbolKind_def)

text \<open>
  C8. A callback entry is never returned, for every snapshot and position.
  \<^verbatim>\<open>getCurrentFunctionInfo\<close> answers with the name and range of the last entry of the
  snapshot that holds the position and is not a callback entry, and
  \<^verbatim>\<open>getCurrentFunctionSymbol\<close> with the labelled name of the last such entry among the
  entries of the four kinds; the entries after it either do not hold the position or
  are callback entries, which the scan has passed over. Both answer with the empty
  result exactly when there is no such entry. So both answer on a snapshot what they
  answer on the snapshot with its callback entries removed, and the name that
  \<^verbatim>\<open>getCurrentFunctionInfo\<close> returns never ends with \<^verbatim>\<open>) callback\<close>.
\<close>

theorem callback_never_returned:
  "fst (getCurrentFunctionInfo_rest p (Some a) w) =
     fst (getCurrentFunctionInfo_rest p (Some a)
            (w\<lparr>heap := (heap w)(a := filter (\<lambda>s. \<not> callback_entry s) (heap w a))\<rparr>)) \<and>
   fst (getCurrentFunctionSymbol_rest b p (Some a) w) =
     fst (getCurrentFunctionSymbol_rest b p (Some a)
            (w\<lparr>heap := (heap w)(a := filter (\<lambda>s. \<not> callback_entry s) (heap w a))\<rparr>)) \<and>
   (fst (getCurrentFunctionInfo_rest p (Some a) w) = [JString n, JPosition s, JPosition e] \<longrightarrow>
      \<not> endsWith n '') callback'') \<and>
   (((\<forall>x\<in>set (heap w a). \<not> holds p x \<or> callback_entry x) \<and>
       fst (getCurrentFunctionInfo_rest p (Some a) w) = []) \<or>
    (\<exists>ys x zs r. heap w a = ys @ x # zs \<and> holds p x \<and> \<not> callback_entry x \<and>
       (\<forall>z\<in>set zs. \<not> holds p z \<or> callback_entry z) \<and> range_sym x = Some r \<and>
       fst (getCurrentFunctionInfo_rest p (Some a) w) =
         [JString (text_sym x), JPosition (start r), JPosition (end_pos r)])) \<and>
   (((\<forall>x\<in>set (filter (\<lambda>s. kind s \<in> set function_kinds) (heap w a)).
         \<not> holds p x \<or> callback_entry x) \<and>
       fst (getCurrentFunctionSymbol_rest b p (Some a) w) = []) \<or>
    (\<exists>ys x zs. filter (\<lambda>s. kind s \<in> set function_kinds) (heap w a) = ys @ x # zs \<and>
       holds p x \<and> \<not> callback_entry x \<and>
       (\<forall>z\<in>set zs. \<not> holds p z \<or> callback_entry z) \<and>
       fst (getCurrentFunctionSymbol_rest b p (Some a) w) = labelled (labels w) x))"
proof (intro conjI)
  show "fst (getCurrentFunctionInfo_rest p (Some a) w) =
     fst (getCurrentFunctionInfo_rest p (Some a)
            (w\<lparr>heap := (heap w)(a := filter (\<lambda>s. \<not> callback_entry s) (heap w a))\<rparr>))"
    using info_loop_filter [of p "rev (heap w a)"]
    by (simp add: info_rest_eq rev_filter)
  have "name_loop lb p (rev (filter (\<lambda>s. kind s \<in> set function_kinds) xs)) =
        name_loop lb p (rev (filter (\<lambda>s. kind s \<in> set function_kinds)
          (filter (\<lambda>s. \<not> callback_entry s) xs)))" for lb xs
    using name_loop_filter [of lb p "rev (filter (\<lambda>s. kind s \<in> set function_kinds) xs)"]
    by (simp add: rev_filter conj_commute)
  then show "fst (getCurrentFunctionSymbol_rest b p (Some a) w) =
     fst (getCurrentFunctionSymbol_rest b p (Some a)
            (w\<lparr>heap := (heap w)(a := filter (\<lambda>s. \<not> callback_entry s) (heap w a))\<rparr>))"
    by (simp add: symbol_rest_eq)
  show "fst (getCurrentFunctionInfo_rest p (Some a) w) = [JString n, JPosition s, JPosition e] \<longrightarrow>
      \<not> endsWith n '') callback''"
    using info_loop_shape [of p "rev (heap w a)"]
    by (auto simp: info_rest_eq candidate_def callback_entry_def)
  show "((\<forall>x\<in>set (heap w a). \<not> holds p x \<or> callback_entry x) \<and>
       fst (getCurrentFunctionInfo_rest p (Some a) w) = []) \<or>
    (\<exists>ys x zs r. heap w a = ys @ x # zs \<and> holds p x \<and> \<not> callback_entry x \<and>
       (\<forall>z\<in>set zs. \<not> holds p z \<or> callback_entry z) \<and> range_sym x = Some r \<and>
       fst (getCurrentFunctionInfo_rest p (Some a) w) =
         [JString (text_sym x), JPosition (start r), JPosition (end_pos r)])"
    unfolding info_rest_eq by (rule info_loop_rev_last)
  show "((\<forall>x\<in>set (filter (\<lambda>s. kind s \<in> set function_kinds) (heap w a)).
         \<not> holds p x \<or> callback_entry x) \<and>
       fst (getCurrentFunctionSymbol_rest b p (Some a) w) = []) \<or>
    (\<exists>ys x zs. filter (\<lambda>s. kind s \<in> set function_kinds) (heap w a) = ys @ x # zs \<and>
       holds p x \<and> \<not> callback_entry x \<and>
       (\<forall>z\<in>set zs. \<not> holds p z \<or> callback_entry z) \<and>
       fst (getCurrentFunctionSymbol_rest b p (Some a) w) = labelled (labels w) x)"
    unfolding symbol_rest_eq by (rule name_loop_rev_last)
qed

theorem callback_never_returned_witness:
  "map text_sym (heap world_callback 1) = [''run'', ''processData() callback''] \<and>
   map range_sym (heap world_callback 1) = [Some (lines 0 40), Some (lines 5 20)] \<and>
   map kind (heap world_callback 1) = [''Function'', ''Function''] \<and>
   map (holds (at_line 10)) (heap world_callback 1) = [True, True] \<and>
   map callback_entry (heap world_callback 1) = [False, True] \<and>
   fst (getCurrentFunctionInfo_rest (at_line 10) (Some 1) world_callback) =
     [JString ''run'', JPosition (at_line 0), JPosition (at_line 40)] \<and>
   fst (getCurrentFunctionSymbol_rest 1 (at_line 10) (Some 1) world_callback) = ''run'' \<and>
   \<not> endsWith ''run'' '') callback''"
proof -
  obtain x y where xy: "heap world_callback 1 = [x, y]"
    using world_callback_heap(1) by auto
  have f: "text_sym x = ''run''" "text_sym y = ''processData() callback''"
    "range_sym x = Some (lines 0 40)" "range_sym y = Some (lines 5 20)"
    "kind x = ''Function''" "kind y = ''Function''"
    using world_callback_heap world_callback_entries(1) xy by simp_all
  have r: "fst (getCurrentFunctionInfo_rest (at_line 10) (Some 1) world_callback) =
     [JString ''run'', JPosition (at_line 0), JPosition (at_line 40)]"
    by (simp add: info_rest_eq xy [unfolded One_nat_def] f holds_lines endsWith_examples
        lines_fields)
  have q: "fst (getCurrentFunctionSymbol_rest 1 (at_line 10) (Some 1) world_callback) = ''run''"
    by (simp add: symbol_rest_eq xy [unfolded One_nat_def] f holds_lines endsWith_examples
        function_kinds_def labelled_def world_callback_entries(2))
  have h: "map (holds (at_line 10)) (heap world_callback 1) = [True, True]"
    "map callback_entry (heap world_callback 1) = [False, True]"
    by (simp_all add: xy [unfolded One_nat_def] f holds_def callback_entry_def holds_lines
        endsWith_examples)
  have ne: "\<not> endsWith ''run'' '') callback''"
    using r
      callback_never_returned [of "at_line 10" 1 world_callback 1 "''run''" "at_line 0"
        "at_line 40"]
    by blast
  show ?thesis
    using r q h world_callback_heap world_callback_entries(1) ne by blast
qed

text \<open>
  C9. The range that the search of \<^verbatim>\<open>selectSymbolRange\<close> selects, before the narrowing
  of the inner variant, holds the reference range and differs from it: it properly
  encloses it. So in a repeated invocation, each with the range selected before, every
  range properly encloses the one before, and no range comes twice.
\<close>

theorem selection_strictly_enlarges:
  "(fst (selectSymbolRange_search supportedSymbols rng a w) = Some r \<longrightarrow>
      rangeInRange rng r \<and> r \<noteq> rng \<and> properly_encloses r rng) \<and>
   sorted_wrt (\<lambda>x y. properly_encloses y x) (rng # walk n supportedSymbols a rng w) \<and>
   distinct (rng # walk n supportedSymbols a rng w)"
  using search_Some [of supportedSymbols rng a w r]
    walk_chain [of rng n supportedSymbols a w]
    chain_distinct [of "rng # walk n supportedSymbols a rng w"]
  by blast

lemma lines_eq: "lines a b = lines c d \<longleftrightarrow> a = c \<and> b = d"
  by (simp add: lines_def)

lemma select_ABC:
  "fst (selectSymbolRange_search [''Function''] (lines 25 25) 1 world_ABC) = Some (lines 20 30)"
  "fst (selectSymbolRange_search [''Function''] (lines 20 30) 1 world_ABC) = Some (lines 10 50)"
  "fst (selectSymbolRange_search [''Function''] (lines 10 50) 1 world_ABC) = Some (lines 0 100)"
  "fst (selectSymbolRange_search [''Function''] (lines 0 100) 1 world_ABC) = None"
  by (simp_all add: search_eq world_ABC_simps info_ABC_fields equals_def rangeInRange_def
      lines_fields holds_lines lines_eq)

lemma walk_same_heap:
  "a < next_addr w \<Longrightarrow> a < next_addr w' \<Longrightarrow> heap w a = heap w' a \<Longrightarrow>
     walk n ks a rng w = walk n ks a rng w'"
proof (induction n arbitrary: rng w w')
  case 0
  then show ?case by simp
next
  case (Suc n)
  let ?s = "selectSymbolRange_search ks rng a w" and ?s' = "selectSymbolRange_search ks rng a w'"
  have f: "fst ?s = fst ?s'"
    using Suc.prems by (simp add: search_eq)
  have "walk n ks a r (snd ?s) = walk n ks a r (snd ?s')" for r
    using Suc.prems by (intro Suc.IH) (simp_all add: search_world)
  then show ?case
    using f by (simp add: split_beta split: option.split)
qed

lemma walk_unfold:
  assumes "a < next_addr w"
  shows "walk (Suc n) ks a rng w =
     (case fst (selectSymbolRange_search ks rng a w) of
        None \<Rightarrow> []
      | Some r \<Rightarrow> r # walk n ks a r w)"
proof -
  have "walk n ks a r (snd (selectSymbolRange_search ks rng a w)) = walk n ks a r w" for r
    using assms by (intro walk_same_heap) (simp_all add: search_world)
  then show ?thesis
    by (simp add: split_beta split: option.split)
qed

theorem selection_strictly_enlarges_witness:
  "fst (selectSymbolRange_search [''Function''] (lines 25 25) 1 world_ABC) = Some (lines 20 30) \<and>
   rangeInRange (lines 25 25) (lines 20 30) \<and> lines 20 30 \<noteq> lines 25 25 \<and>
   properly_encloses (lines 20 30) (lines 25 25) \<and>
   walk (Suc (Suc (Suc (Suc 0)))) [''Function''] 1 (lines 25 25) world_ABC
     = [lines 20 30, lines 10 50, lines 0 100] \<and>
   distinct (lines 25 25 # walk (Suc (Suc (Suc (Suc 0)))) [''Function''] 1 (lines 25 25) world_ABC)"
proof -
  have lt: "1 < next_addr world_ABC"
    by (simp add: world_ABC_simps)
  note s = select_ABC(1) and s2 = select_ABC(2) and s3 = select_ABC(3) and s4 = select_ABC(4)
  have w1: "walk (Suc 0) [''Function''] 1 (lines 0 100) world_ABC = []"
    using walk_unfold [OF lt, of 0 "[''Function'']" "lines 0 100"] s4 by simp
  have w2: "walk (Suc (Suc 0)) [''Function''] 1 (lines 10 50) world_ABC = [lines 0 100]"
    using walk_unfold [OF lt, of "Suc 0" "[''Function'']" "lines 10 50"] s3 w1 by simp
  have w3: "walk (Suc (Suc (Suc 0))) [''Function''] 1 (lines 20 30) world_ABC
      = [lines 10 50, lines 0 100]"
    using walk_unfold [OF lt, of "Suc (Suc 0)" "[''Function'']" "lines 20 30"] s2 w2 by simp
  have w4: "walk (Suc (Suc (Suc (Suc 0)))) [''Function''] 1 (lines 25 25) world_ABC
      = [lines 20 30, lines 10 50, lines 0 100]"
    using walk_unfold [OF lt, of "Suc (Suc (Suc 0))" "[''Function'']" "lines 25 25"] s w3
    by simp
  show ?thesis
    using s w4
      selection_strictly_enlarges [of "[''Function'']" "lines 25 25" 1 world_ABC "lines 20 30"
        "Suc (Suc (Suc (Suc 0)))"]
    by simp
qed

end
